theory Spec2Isabelle
  imports Main "HOL-Library.Word"
begin

section \<open>Shared data: errors, raw bytes and JSON documents\<close>

text \<open>
  Go strings and byte slices are lists of bytes (\<open>string\<close>); the nil slice and the
  empty slice are both \<open>[]\<close>. A Go \<open>error\<close> value is a value of the datatype below
  (\<open>nil\<close> is \<open>None\<close> of \<open>error option\<close>); a run-time panic, which is not an error
  return in Go, is kept apart by its own constructor so that no panic is mistaken
  for an ordinary failure.
\<close>

datatype error =
    ErrorString string          \<comment> \<open>an error made by \<open>fmt.Errorf\<close>, with its text\<close>
  | ReadError string            \<comment> \<open>a failed read of a stream\<close>
  | SyntaxError string          \<comment> \<open>\<open>encoding/json\<close>: the bytes are not JSON\<close>
  | UnmarshalTypeError string   \<comment> \<open>\<open>encoding/json\<close>: a value of the wrong JSON type, with the place\<close>
  | LibError string             \<comment> \<open>any other error returned by the library or the operating system\<close>
  | Panic string                \<comment> \<open>a run-time panic (nil dereference, index out of range)\<close>

text \<open>
  A JSON document after lexing. Keys and strings are held unquoted, as the UTF-8 bytes
  the decoder compares and stores. A number literal written with digits alone, after an
  optional minus sign, is \<open>JInt\<close> with its value; a literal with a fraction or an
  exponent is \<open>JFrac\<close> and carries its text. This is the distinction the decoder
  makes for an \<open>int\<close> field, which it reads with \<open>strconv.ParseInt\<close>.
\<close>

datatype json =
    JNull
  | JBool bool
  | JInt int
  | JFrac string
  | JString string
  | JArray "json list"
  | JObject "(string \<times> json) list"

text \<open>
  \<open>json.RawMessage\<close>: an undecoded JSON value, represented by the document it
  holds; \<open>None\<close> is the nil message.
\<close>

type_synonym RawMessage = "json option"

type_synonym Time = nat

section \<open>Certificates, TLS sessions and HTTP messages\<close>

text \<open>
  The parts of \<open>x509.Certificate\<close>, \<open>tls.ConnectionState\<close>, \<open>http.Request\<close> and
  \<open>http.Response\<close> that the code reads. A nil pointer is \<open>None\<close>.
\<close>

record Certificate =
  Raw :: string

record ConnectionState =
  PeerCertificates :: "Certificate list"
  ServerName :: string

text \<open>
  The body of a response, as \<open>ParseResponse\<close> sees it: reading it fails
  (\<open>ioutil.ReadAll\<close> returns an error), or its bytes are not well-formed JSON
  (\<open>json.Unmarshal\<close> returns the syntax error before it stores anything), or they
  are the text of a JSON document.
\<close>

datatype body =
    Unreadable error
  | Malformed error
  | Document json

record http_Request =
  Method :: string
  URL :: string
  Header :: "(string \<times> string) list"
  Body :: string
  TLS :: "ConnectionState option"

record http_Response =
  StatusCode :: int
  Header :: "(string \<times> string) list"
  Body :: body
  TLS :: "ConnectionState option"

text \<open>\<open>Jmap\<close> is \<open>map[string]interface{}\<close>; nil is the empty list.\<close>

type_synonym Jmap = "(string \<times> json) list"

type_synonym FileMode = "32 word"

text \<open>The body of a trust request, as the daemon decodes it.\<close>

record trustPostBody =
  Type :: string
  Certificate :: string
  Password :: string

section \<open>The file system\<close>

record FS =
  files :: "string \<rightharpoonup> string"
  dirs :: "string set"

section \<open>The environment of the code\<close>

text \<open>
  What the code calls and the files modelled here do not define: functions of the Go
  standard library, the answers of the operating system and of the network, and
  declarations of the repository that live in other files. Each is a field of the
  record below, so every definition that follows is stated for all of them.
\<close>

record env =
  \<comment> \<open>declared elsewhere in the repository\<close>
  APIVersion :: string
  VarPath :: "string \<Rightarrow> string"
  PW_SALT_BYTES :: nat
  PW_HASH_BYTES :: nat
  ReadToJson :: "string \<Rightarrow> error + trustPostBody"
  ParseLXDFileHeaders :: "(string \<times> string) list \<Rightarrow> error + (int \<times> int \<times> FileMode)"
  ReadStdin :: "error + string"
  \<comment> \<open>the Go standard library\<close>
  Join :: "string list \<Rightarrow> string"
  Encode :: "Jmap \<Rightarrow> error + string"
  Values_Encode :: "(string \<times> string list) list \<Rightarrow> string"
  NewRequest :: "string \<Rightarrow> string \<Rightarrow> string \<Rightarrow> error + http_Request"
  Sum256 :: "string \<Rightarrow> string"
  scrypt_Key :: "string \<Rightarrow> string \<Rightarrow> nat \<Rightarrow> nat \<Rightarrow> nat \<Rightarrow> nat \<Rightarrow> error + string"
  DecodeString :: "string \<Rightarrow> error + string"
  ParseCertificate :: "string \<Rightarrow> error + Certificate"
  pem_Encode :: "string \<Rightarrow> string \<Rightarrow> string"
  \<comment> \<open>the network and the operating system\<close>
  Do :: "http_Request \<Rightarrow> error + http_Response"
  Getenv :: "string \<Rightarrow> string"
  mkdir_fails :: "string \<Rightarrow> error option"
  open_fails :: "string \<Rightarrow> error option"
  write_fails :: "string \<Rightarrow> error option"

text \<open>
  \<open>os.MkdirAll\<close>, \<open>os.Open\<close>, \<open>os.Create\<close> (which is \<open>os.OpenFile\<close> with
  \<open>O_CREATE|O_TRUNC\<close>) and \<open>pem.Encode\<close> to an open file. Whether a call fails is
  the environment's answer; what a successful call does to the file system is fixed.
\<close>

definition MkdirAll :: "env \<Rightarrow> FS \<Rightarrow> string \<Rightarrow> error + FS" where
  "MkdirAll E fs path =
     (case mkdir_fails E path of
        Some e \<Rightarrow> Inl e
      | None \<Rightarrow> Inr (fs\<lparr>dirs := insert path (dirs fs)\<rparr>))"

definition Open :: "env \<Rightarrow> FS \<Rightarrow> string \<Rightarrow> error + string" where
  "Open E fs path =
     (case open_fails E path of
        Some e \<Rightarrow> Inl e
      | None \<Rightarrow>
          (case files fs path of
             None \<Rightarrow> Inl (LibError ''no such file or directory'')
           | Some content \<Rightarrow> Inr content))"

definition Create :: "env \<Rightarrow> FS \<Rightarrow> string \<Rightarrow> error + FS" where
  "Create E fs path =
     (case open_fails E path of
        Some e \<Rightarrow> Inl e
      | None \<Rightarrow> Inr (fs\<lparr>files := (files fs)(path \<mapsto> [])\<rparr>))"

definition pem_Encode_to :: "env \<Rightarrow> FS \<Rightarrow> string \<Rightarrow> string \<Rightarrow> string \<Rightarrow> FS \<times> error option" where
  "pem_Encode_to E fs path type bytes =
     (case write_fails E path of
        Some e \<Rightarrow> (fs, Some e)
      | None \<Rightarrow> (fs\<lparr>files := (files fs)(path \<mapsto> pem_Encode E type bytes)\<rparr>, None))"

section \<open>Formatting: \<open>fmt.Errorf\<close> with a format and no operands\<close>

text \<open>
  Every error the code makes itself is \<open>fmt.Errorf(format)\<close> with no operand after the
  format. \<open>doPrintf\<close> below follows the scanner of Go's \<open>fmt\<close> package for that
  case: text is copied up to a \<open>%\<close>; after it come flags, an argument index
  \<open>[n]\<close>, a width, a precision and the verb, which is one UTF-8 rune. With no
  operand to print, \<open>%%\<close> gives \<open>%\<close>, a verb gives \<open>%!v(MISSING)\<close> (or
  \<open>%!v(BADINDEX)\<close> after an index), a \<open>*\<close> gives \<open>%!(BADWIDTH)\<close> or
  \<open>%!(BADPREC)\<close>, and a format that ends inside a directive gives \<open>%!(NOVERB)\<close>.
\<close>

text \<open>
  \<open>utf8.DecodeRuneInString\<close>, as far as the scanner needs it. \<open>rune_size s\<close> is the
  number of bytes of the well-formed UTF-8 sequence that \<open>s\<close> starts with, and 0 when
  it starts with none. \<open>DecodeRune s\<close> gives the bytes that writing the decoded rune
  produces and the number of bytes read: a well-formed sequence is written as it is, and
  anything else is read as one byte and written as U+FFFD.
\<close>

definition is_cont :: "char \<Rightarrow> bool" where
  "is_cont c = (128 \<le> (of_char c :: nat) \<and> (of_char c :: nat) \<le> 191)"

definition rune_size :: "string \<Rightarrow> nat" where
  "rune_size s =
     (case s of
        [] \<Rightarrow> 0
      | b0 # t \<Rightarrow>
          (let n0 = (of_char b0 :: nat) in
           if n0 < 128 then 1
           else if 194 \<le> n0 \<and> n0 \<le> 223 then
             (case t of
                b1 # t1 \<Rightarrow> if is_cont b1 then 2 else 0
              | [] \<Rightarrow> 0)
           else if 224 \<le> n0 \<and> n0 \<le> 239 then
             (case t of
                b1 # b2 # t2 \<Rightarrow>
                  (let n1 = (of_char b1 :: nat);
                       lo = (if n0 = 224 then 160 else 128);
                       hi = (if n0 = 237 then 159 else 191)
                   in if lo \<le> n1 \<and> n1 \<le> hi \<and> is_cont b2 then 3 else 0)
              | _ \<Rightarrow> 0)
           else if 240 \<le> n0 \<and> n0 \<le> 244 then
             (case t of
                b1 # b2 # b3 # t3 \<Rightarrow>
                  (let n1 = (of_char b1 :: nat);
                       lo = (if n0 = 240 then 144 else 128);
                       hi = (if n0 = 244 then 143 else 191)
                   in if lo \<le> n1 \<and> n1 \<le> hi \<and> is_cont b2 \<and> is_cont b3 then 4 else 0)
              | _ \<Rightarrow> 0)
           else 0))"

definition DecodeRune :: "string \<Rightarrow> string \<times> nat" where
  "DecodeRune s =
     (let n = rune_size s in
      if n = 0 then ([CHR 0xEF, CHR 0xBF, CHR 0xBD], 1) else (take n s, n))"

definition is_flag :: "char \<Rightarrow> bool" where
  "is_flag c = (c \<in> set ''#0+- '')"

definition is_digit :: "char \<Rightarrow> bool" where
  "is_digit c = (c \<in> set ''0123456789'')"

definition digit_val :: "char \<Rightarrow> nat" where
  "digit_val c = of_char c - 48"

text \<open>
  \<open>parsenum\<close> gives the number, whether there was one, and how many bytes it read;
  once the number has passed a million it gives up and skips to the end of its text.
\<close>

fun parsenum_loop :: "nat \<Rightarrow> string \<Rightarrow> (nat \<times> nat) option" where
  "parsenum_loop num [] = Some (num, 0)"
| "parsenum_loop num (c # cs) =
     (if is_digit c
      then (if num > 1000000 then None
            else map_option (\<lambda>(n, k). (n, Suc k)) (parsenum_loop (num * 10 + digit_val c) cs))
      else Some (num, 0))"

definition parsenum :: "string \<Rightarrow> nat \<times> bool \<times> nat" where
  "parsenum s =
     (case parsenum_loop 0 s of
        None \<Rightarrow> (0, False, length s)
      | Some (num, k) \<Rightarrow> (num, 0 < k, k))"

fun index_of :: "char \<Rightarrow> string \<Rightarrow> nat option" where
  "index_of c [] = None"
| "index_of c (x # xs) = (if x = c then Some 0 else map_option Suc (index_of c xs))"

text \<open>
  \<open>parseArgNumber\<close> is called on a text that starts with \<open>[\<close>; it gives the number of
  bytes to skip and whether the index was well formed. \<open>argNumber\<close> gives the bytes to
  skip, whether an index was found, and whether the argument number is still good (no
  index is in range when there are no operands).
\<close>

definition parseArgNumber :: "string \<Rightarrow> nat \<times> bool" where
  "parseArgNumber s =
     (if length s < 3 then (1, False)
      else case index_of (CHR '']'') (tl s) of
             None \<Rightarrow> (1, False)
           | Some j \<Rightarrow>
               (let (num, isnum, k) = parsenum (take j (tl s))
                in if \<not> isnum \<or> k \<noteq> j then (j + 2, False) else (j + 2, True)))"

definition argNumber :: "string \<Rightarrow> nat \<times> bool \<times> bool" where
  "argNumber s =
     (case s of
        [] \<Rightarrow> (0, False, True)
      | c # cs \<Rightarrow>
          if c \<noteq> CHR ''[''  then (0, False, True)
          else (let (wid, ok) = parseArgNumber s in (wid, ok, False)))"

text \<open>
  One directive: \<open>verb s\<close> is called on the text after a \<open>%\<close> and gives what is
  written and how many bytes of \<open>s\<close> the directive takes. A \<open>.\<close> starts a
  precision only when a byte follows it; as the last byte of the format it is the verb.
\<close>

definition verb :: "string \<Rightarrow> string \<times> nat" where
  "verb s =
     (let s1 = dropWhile is_flag s;
          (k1, afterIndex1, good1) = argNumber s1;
          s2 = drop k1 s1;
          (out2, s3, afterIndex2, good2) =
            (case s2 of
               [] \<Rightarrow> ('''', s2, afterIndex1, good1)
             | c # cs \<Rightarrow>
                 if c = CHR ''*'' then (''%!(BADWIDTH)'', cs, False, good1)
                 else (let (num, widPresent, k) = parsenum s2
                       in ('''', drop k s2, afterIndex1,
                           good1 \<and> \<not> (afterIndex1 \<and> widPresent))));
          (out3, s4, afterIndex3, good3) =
            (case s3 of
               [] \<Rightarrow> ('''', s3, afterIndex2, good2)
             | c # cs \<Rightarrow>
                 if c \<noteq> CHR ''.'' \<or> cs = [] then ('''', s3, afterIndex2, good2)
                 else (let (k2, afterIndex, good) = argNumber cs;
                           s' = drop k2 cs;
                           good' = (good2 \<and> \<not> afterIndex2 \<and> good)
                       in case s' of
                            [] \<Rightarrow> ('''', s', afterIndex, good')
                          | c' # cs' \<Rightarrow>
                              if c' = CHR ''*'' then (''%!(BADPREC)'', cs', False, good')
                              else (let (num, precPresent, k) = parsenum s'
                                    in ('''', drop k s', afterIndex, good'))));
          (s5, good5) =
            (if afterIndex3 then (s4, good3)
             else (let (k3, afterIndex, good) = argNumber s4
                   in (drop k3 s4, good3 \<and> good)))
      in case s5 of
           [] \<Rightarrow> (out2 @ out3 @ ''%!(NOVERB)'', length s)
         | v # rest \<Rightarrow>
             (let (rune, size) = DecodeRune s5 in
              (out2 @ out3 @
                 (if v = CHR ''%'' then ''%''
                  else if \<not> good5 then ''%!'' @ rune @ ''(BADINDEX)''
                  else ''%!'' @ rune @ ''(MISSING)''),
               length s - length s5 + size)))"

fun doPrintf :: "string \<Rightarrow> string" where
  "doPrintf [] = []"
| "doPrintf (c # cs) =
     (if c \<noteq> CHR ''%'' then c # doPrintf cs
      else (let (out, k) = verb cs in out @ doPrintf (drop k cs)))"

definition Errorf :: "string \<Rightarrow> error" where
  "Errorf format = ErrorString (doPrintf format)"

section \<open>The daemon's trust handlers\<close>

record Daemon =
  clientCerts :: "string \<rightharpoonup> Certificate"

text \<open>
  The responses a handler returns are built by \<open>BadRequest\<close>, \<open>InternalError\<close> and
  \<open>EmptySyncResponse\<close>, declared elsewhere in the daemon; they are kept as
  constructors.
\<close>

datatype daemon_Response =
    BadRequest error
  | InternalError error
  | EmptySyncResponse

definition hasPwd :: "env \<Rightarrow> FS \<Rightarrow> bool" where
  "hasPwd E fs =
     (case Open E fs (VarPath E ''adminpwd'') of Inl err \<Rightarrow> False | Inr passOut \<Rightarrow> True)"

text \<open>
  \<open>File.Read\<close> into a buffer of \<open>n\<close> zero bytes: at the end of the file it returns
  \<open>io.EOF\<close>, otherwise the buffer holds the bytes read and keeps its zeros after them.
\<close>

definition Read_buff :: "string \<Rightarrow> nat \<Rightarrow> error + string" where
  "Read_buff content n =
     (if n = 0 then Inr []
      else if content = [] then Inl (LibError ''EOF'')
      else Inr (take n content @ replicate (n - length content) (CHR 0x00)))"

definition verifyAdminPwd :: "env \<Rightarrow> FS \<Rightarrow> string \<Rightarrow> bool" where
  "verifyAdminPwd E fs password =
     (let passfname = VarPath E ''adminpwd'' in
      case Open E fs passfname of
        Inl err \<Rightarrow> False
      | Inr passOut \<Rightarrow>
          (case Read_buff passOut (PW_SALT_BYTES E + PW_HASH_BYTES E) of
             Inl err \<Rightarrow> False
           | Inr buff \<Rightarrow>
               (let salt = take (PW_SALT_BYTES E) buff in
                case scrypt_Key E password salt (2 ^ 14) 8 1 (PW_HASH_BYTES E) of
                  Inl err \<Rightarrow> False
                | Inr hash \<Rightarrow>
                    if hash \<noteq> drop (PW_SALT_BYTES E) buff then False else True)))"

text \<open>
  \<open>saveCert\<close>: the error of \<open>os.MkdirAll\<close> is overwritten by the one of
  \<open>os.OpenFile\<close> before it is looked at.
\<close>

definition saveCert :: "env \<Rightarrow> FS \<Rightarrow> string \<Rightarrow> Certificate \<Rightarrow> FS \<times> error option" where
  "saveCert E fs host cert =
     (let dirname = VarPath E ''clientcerts'';
          fs1 = (case MkdirAll E fs dirname of Inl err \<Rightarrow> fs | Inr fs' \<Rightarrow> fs');
          filename = dirname @ ''/'' @ host @ ''.crt''
      in case Create E fs1 filename of
           Inl err \<Rightarrow> (fs1, Some err)
         | Inr fs2 \<Rightarrow>
             (case pem_Encode_to E fs2 filename ''CERTIFICATE'' (Raw cert) of
                (fs3, Some err) \<Rightarrow> (fs3, Some err)
              | (fs3, None) \<Rightarrow> (fs3, None)))"

text \<open>
  \<open>trustPost\<close>. The handler returns a response, or panics where it dereferences a nil
  \<open>r.TLS\<close> or indexes an empty list of peer certificates (\<open>Inl (Panic _)\<close>); the
  daemon and the file system are returned as the call leaves them. The field
  \<open>Password\<close> of the decoded body is never read.
\<close>

definition trustPost_store ::
  "env \<Rightarrow> Daemon \<Rightarrow> FS \<Rightarrow> http_Request \<Rightarrow> Certificate \<Rightarrow>
   Daemon \<times> FS \<times> (error + daemon_Response)" where
  "trustPost_store E d fs r cert =
     (case http_Request.TLS r of
        None \<Rightarrow> (d, fs, Inl (Panic ''nil pointer dereference''))
      | Some tls \<Rightarrow>
          (case saveCert E fs (ServerName tls) cert of
             (fs', Some err) \<Rightarrow> (d, fs', Inr (InternalError err))
           | (fs', None) \<Rightarrow>
               (d\<lparr>clientCerts := (clientCerts d)(ServerName tls \<mapsto> cert)\<rparr>, fs',
                Inr EmptySyncResponse)))"

definition trustPost ::
  "env \<Rightarrow> Daemon \<Rightarrow> FS \<Rightarrow> http_Request \<Rightarrow> Daemon \<times> FS \<times> (error + daemon_Response)" where
  "trustPost E d fs r =
     (case ReadToJson E (http_Request.Body r) of
        Inl err \<Rightarrow> (d, fs, Inr (BadRequest err))
      | Inr req \<Rightarrow>
          if Certificate req \<noteq> ''''
          then (case DecodeString E (Certificate req) of
                  Inl err \<Rightarrow> (d, fs, Inr (BadRequest err))
                | Inr data \<Rightarrow>
                    (case ParseCertificate E data of
                       Inl err \<Rightarrow> (d, fs, Inr (BadRequest err))
                     | Inr cert \<Rightarrow> trustPost_store E d fs r cert))
          else (case http_Request.TLS r of
                  None \<Rightarrow> (d, fs, Inl (Panic ''nil pointer dereference''))
                | Some tls \<Rightarrow>
                    if PeerCertificates tls = []
                    then (d, fs, Inl (Panic ''index out of range''))
                    else trustPost_store E d fs r (last (PeerCertificates tls))))"

section \<open>The client: envelopes\<close>

type_synonym ResponseType = string

record Response =
  Type :: ResponseType
  Result :: string
  Operation :: string
  Code :: int
  Error :: string
  Metadata :: RawMessage

definition Sync :: ResponseType where "Sync = ''sync''"
definition Async :: ResponseType where "Async = ''async''"
definition Error :: ResponseType where "Error = ''error''"

text \<open>The zero value \<open>Response{}\<close>.\<close>

definition Response_zero :: Response where
  "Response_zero =
     \<lparr>Type = '''', Result = '''', Operation = '''', Code = 0, Error = '''', Metadata = None\<rparr>"

text \<open>
  \<open>json.Unmarshal(s, &ret)\<close> on the document the bytes denote. The decoder stores an
  object's members one after the other; a member is stored in the field whose
  \<open>json\<close> tag equals its key under the decoder's folding of names, and a key that
  names no field is skipped. The folding (\<open>fold_key\<close>) takes no account of the case of
  the letters A to Z and reads the long s, U+017F, as \<open>s\<close> and the Kelvin sign,
  U+212A, as \<open>k\<close>; every other byte stands for itself. A string field takes a JSON string, the \<open>int\<close> field an
  integer literal in the range of \<open>int\<close>, the raw field any value; \<open>null\<close> leaves a
  string or \<open>int\<close> field as it is. A value of another type leaves the field as it is,
  and the first such error is returned once the whole object has been read. A document
  that is no object is an error, except \<open>null\<close>, which does nothing.
\<close>

definition to_lower :: "char \<Rightarrow> char" where
  "to_lower c =
     (let n = (of_char c :: nat) in if 65 \<le> n \<and> n \<le> 90 then char_of (n + 32) else c)"

fun fold_key :: "string \<Rightarrow> string" where
  "fold_key [] = []"
| "fold_key (c # cs) =
     (if c = CHR 0xC5 then
        (case cs of
           d # ds \<Rightarrow> if d = CHR 0xBF then CHR ''s'' # fold_key ds else c # fold_key cs
         | [] \<Rightarrow> c # fold_key cs)
      else if c = CHR 0xE2 then
        (case cs of
           d1 # d2 # ds \<Rightarrow>
             if d1 = CHR 0x84 \<and> d2 = CHR 0xAA then CHR ''k'' # fold_key ds
             else c # fold_key cs
         | _ \<Rightarrow> c # fold_key cs)
      else to_lower c # fold_key cs)"

definition string_value :: "string \<Rightarrow> json \<Rightarrow> error + string option" where
  "string_value field v =
     (case v of
        JString s \<Rightarrow> Inr (Some s)
      | JNull \<Rightarrow> Inr None
      | _ \<Rightarrow> Inl (UnmarshalTypeError field))"

definition int_value :: "string \<Rightarrow> json \<Rightarrow> error + int option" where
  "int_value field v =
     (case v of
        JInt n \<Rightarrow>
          if - (2 ^ 63) \<le> n \<and> n < 2 ^ 63 then Inr (Some n)
          else Inl (UnmarshalTypeError field)
      | JNull \<Rightarrow> Inr None
      | _ \<Rightarrow> Inl (UnmarshalTypeError field))"

definition set_field :: "string \<Rightarrow> json \<Rightarrow> Response \<Rightarrow> error + Response" where
  "set_field key v r =
     (let k = fold_key key in
      if k = ''type'' then
        (case string_value ''Response.type'' v of
           Inl e \<Rightarrow> Inl e | Inr None \<Rightarrow> Inr r | Inr (Some s) \<Rightarrow> Inr (r\<lparr>Type := s\<rparr>))
      else if k = ''result'' then
        (case string_value ''Response.result'' v of
           Inl e \<Rightarrow> Inl e | Inr None \<Rightarrow> Inr r | Inr (Some s) \<Rightarrow> Inr (r\<lparr>Result := s\<rparr>))
      else if k = ''operation'' then
        (case string_value ''Response.operation'' v of
           Inl e \<Rightarrow> Inl e | Inr None \<Rightarrow> Inr r | Inr (Some s) \<Rightarrow> Inr (r\<lparr>Operation := s\<rparr>))
      else if k = ''error_code'' then
        (case int_value ''Response.error_code'' v of
           Inl e \<Rightarrow> Inl e | Inr None \<Rightarrow> Inr r | Inr (Some n) \<Rightarrow> Inr (r\<lparr>Code := n\<rparr>))
      else if k = ''error'' then
        (case string_value ''Response.error'' v of
           Inl e \<Rightarrow> Inl e | Inr None \<Rightarrow> Inr r | Inr (Some s) \<Rightarrow> Inr (r\<lparr>Error := s\<rparr>))
      else if k = ''metadata'' then Inr (r\<lparr>Metadata := Some v\<rparr>)
      else Inr r)"

fun unmarshal_members ::
  "(string \<times> json) list \<Rightarrow> Response \<Rightarrow> error option \<Rightarrow> Response \<times> error option" where
  "unmarshal_members [] r saved = (r, saved)"
| "unmarshal_members ((key, v) # ms) r saved =
     (case set_field key v r of
        Inr r' \<Rightarrow> unmarshal_members ms r' saved
      | Inl e \<Rightarrow>
          unmarshal_members ms r (case saved of None \<Rightarrow> Some e | Some e0 \<Rightarrow> Some e0))"

definition Unmarshal :: "json \<Rightarrow> Response \<Rightarrow> Response \<times> error option" where
  "Unmarshal doc r =
     (case doc of
        JNull \<Rightarrow> (r, None)
      | JObject ms \<Rightarrow> unmarshal_members ms r None
      | _ \<Rightarrow> (r, Some (UnmarshalTypeError ''Response'')))"

definition ParseResponse :: "http_Response \<Rightarrow> error + Response" where
  "ParseResponse r =
     (case Body r of
        Unreadable err \<Rightarrow> Inl err
      | Malformed err \<Rightarrow> Inl err
      | Document doc \<Rightarrow>
          (case Unmarshal doc Response_zero of
             (ret, Some err) \<Rightarrow> Inl err
           | (ret, None) \<Rightarrow> Inr ret))"

definition ParseError :: "Response \<Rightarrow> error option" where
  "ParseError r =
     (if Type r = Error then Some (Errorf (Response.Error r)) else None)"

section \<open>What the decoder accepts\<close>

text \<open>
  The documents for which \<open>ParseResponse\<close> returns an envelope, said without the
  decoder: \<open>null\<close>, or an object each of whose members is accepted. A member is
  accepted when its key names no field, or names the raw field, or its value is
  \<open>null\<close> or of the field's type; a key names a field as the decoder reads names
  (\<open>fold_key\<close>). Nothing here relates the members to each other or
  to the value of \<open>type\<close>.
\<close>

definition member_accepted :: "string \<Rightarrow> json \<Rightarrow> bool" where
  "member_accepted key v =
     (let k = fold_key key in
      if k = ''type'' \<or> k = ''result'' \<or> k = ''operation'' \<or> k = ''error''
      then (case v of JNull \<Rightarrow> True | JString s \<Rightarrow> True | _ \<Rightarrow> False)
      else if k = ''error_code''
      then (case v of JNull \<Rightarrow> True | JInt n \<Rightarrow> - (2 ^ 63) \<le> n \<and> n < 2 ^ 63 | _ \<Rightarrow> False)
      else True)"

definition accepted_document :: "json \<Rightarrow> bool" where
  "accepted_document doc =
     (case doc of
        JNull \<Rightarrow> True
      | JObject ms \<Rightarrow> list_all (\<lambda>(key, v). member_accepted key v) ms
      | _ \<Rightarrow> False)"

section \<open>The client: requests\<close>

text \<open>
  The fields of \<open>Client\<close> that the functions below read or write; the HTTP client
  \<open>c.http\<close> is the environment's \<open>Do\<close>.
\<close>

record Client =
  name :: string
  baseURL :: string
  scert :: "Certificate option"
  scertWire :: "Certificate option"
  scertDigest :: string
  scertDigestSet :: bool

definition url :: "env \<Rightarrow> Client \<Rightarrow> string list \<Rightarrow> string" where
  "url E c elem = baseURL c @ ''/'' @ Join E elem"

text \<open>
  \<open>http.Client.Get\<close> and \<open>http.Client.Post\<close> build the request with
  \<open>http.NewRequest\<close> and hand it to \<open>Do\<close>.
\<close>

definition Header_Set :: "http_Request \<Rightarrow> string \<Rightarrow> string \<Rightarrow> http_Request" where
  "Header_Set req key v =
     req\<lparr>http_Request.Header :=
           (key, v) # filter (\<lambda>(k, x). k \<noteq> key) (http_Request.Header req)\<rparr>"

definition http_Get :: "env \<Rightarrow> string \<Rightarrow> error + http_Response" where
  "http_Get E uri =
     (case NewRequest E ''GET'' uri [] of
        Inl err \<Rightarrow> Inl err
      | Inr req \<Rightarrow> Do E req)"

definition http_Post :: "env \<Rightarrow> string \<Rightarrow> string \<Rightarrow> string \<Rightarrow> error + http_Response" where
  "http_Post E uri contentType buf =
     (case NewRequest E ''POST'' uri buf of
        Inl err \<Rightarrow> Inl err
      | Inr req \<Rightarrow> Do E (Header_Set req ''Content-Type'' contentType))"

text \<open>
  \<open>Client.get\<close> returns the client as the call leaves it and the result. Its two
  \<open>if\<close> blocks run one after the other; indexing an empty list of peer certificates
  panics.
\<close>

definition get :: "env \<Rightarrow> Client \<Rightarrow> string \<Rightarrow> Client \<times> (error + Response)" where
  "get E c base =
     (let uri = url E c [APIVersion E, base] in
      case http_Get E uri of
        Inl err \<Rightarrow> (c, Inl err)
      | Inr resp \<Rightarrow>
          (case (if scert c \<noteq> None \<and> TLS resp \<noteq> None
                 then (case PeerCertificates (the (TLS resp)) of
                         [] \<Rightarrow> Some (Panic ''index out of range'')
                       | peer # others \<Rightarrow>
                           if Raw peer \<noteq> Raw (the (scert c))
                           then Some (Errorf ''Server certificate has changed'')
                           else None)
                 else None) of
             Some err \<Rightarrow> (c, Inl err)
           | None \<Rightarrow>
               (case (if scertDigestSet c = False \<and> TLS resp \<noteq> None
                      then (case PeerCertificates (the (TLS resp)) of
                              [] \<Rightarrow> Inl (Panic ''index out of range'')
                            | peer # others \<Rightarrow>
                                Inr (c\<lparr>scertWire := Some peer,
                                       scertDigest := Sum256 E (Raw peer),
                                       scertDigestSet := True\<rparr>))
                      else Inr c) of
                  Inl err \<Rightarrow> (c, Inl err)
                | Inr c' \<Rightarrow> (c', ParseResponse resp))))"

definition put :: "env \<Rightarrow> Client \<Rightarrow> string \<Rightarrow> Jmap \<Rightarrow> error + Response" where
  "put E c base args =
     (let uri = url E c [APIVersion E, base] in
      case Encode E args of
        Inl err \<Rightarrow> Inl err
      | Inr buf \<Rightarrow>
          (case NewRequest E ''PUT'' uri buf of
             Inl err \<Rightarrow> Inl err
           | Inr req \<Rightarrow>
               (case Do E (Header_Set req ''Content-Type'' ''application/json'') of
                  Inl err \<Rightarrow> Inl err
                | Inr resp \<Rightarrow> ParseResponse resp)))"

definition post :: "env \<Rightarrow> Client \<Rightarrow> string \<Rightarrow> Jmap \<Rightarrow> error + Response" where
  "post E c base args =
     (let uri = url E c [APIVersion E, base] in
      case Encode E args of
        Inl err \<Rightarrow> Inl err
      | Inr buf \<Rightarrow>
          (case http_Post E uri ''application/json'' buf of
             Inl err \<Rightarrow> Inl err
           | Inr resp \<Rightarrow> ParseResponse resp))"

text \<open>\<open>Client.delete_\<close>.\<close>

definition delete' :: "env \<Rightarrow> Client \<Rightarrow> string \<Rightarrow> Jmap \<Rightarrow> error + Response" where
  "delete' E c base args =
     (let uri = url E c [APIVersion E, base] in
      case Encode E args of
        Inl err \<Rightarrow> Inl err
      | Inr buf \<Rightarrow>
          (case NewRequest E ''DELETE'' uri buf of
             Inl err \<Rightarrow> Inl err
           | Inr req \<Rightarrow>
               (case Do E (Header_Set req ''Content-Type'' ''application/json'') of
                  Inl err \<Rightarrow> Inl err
                | Inr resp \<Rightarrow> ParseResponse resp)))"

text \<open>
  \<open>Client.UserAuthServerCert\<close>. It prints the fingerprint and the question, reads
  the operator's answer, and returns the file system as the call leaves it and the
  error. Indexing an empty answer panics, and so does reading \<open>Raw\<close> of a nil
  \<open>scertWire\<close>; the error of \<open>pem.Encode\<close> is dropped, and the last \<open>return err\<close>
  returns the nil error of \<open>os.Create\<close>.
\<close>

definition UserAuthServerCert :: "env \<Rightarrow> Client \<Rightarrow> FS \<Rightarrow> FS \<times> error option" where
  "UserAuthServerCert E c fs =
     (if \<not> scertDigestSet c then (fs, Some (Errorf ''No certificate on this connection''))
      else case ReadStdin E of
        Inl err \<Rightarrow> (fs, Some err)
      | Inr line \<Rightarrow>
          (case line of
             [] \<Rightarrow> (fs, Some (Panic ''index out of range''))
           | ch # rest \<Rightarrow>
               if ch \<noteq> CHR ''y'' \<and> ch \<noteq> CHR ''Y''
               then (fs, Some (Errorf ''Server certificate NACKed by user''))
               else
                 (let homedir = Getenv E ''HOME'' in
                  if homedir = '''' then (fs, Some (Errorf ''Could not find homedir''))
                  else
                    (let dnam = homedir @ ''/.config/lxc/servercerts'' in
                     case MkdirAll E fs dnam of
                       Inl err \<Rightarrow> (fs, Some (Errorf ''Could not create server cert dir''))
                     | Inr fs1 \<Rightarrow>
                         (let certf = dnam @ ''/'' @ name c @ ''.crt'' in
                          case Create E fs1 certf of
                            Inl err \<Rightarrow> (fs1, Some err)
                          | Inr fs2 \<Rightarrow>
                              (case scertWire c of
                                 None \<Rightarrow> (fs2, Some (Panic ''nil pointer dereference''))
                               | Some wire \<Rightarrow>
                                   (fst (pem_Encode_to E fs2 certf ''CERTIFICATE'' (Raw wire)),
                                    None)))))))"

text \<open>
  \<open>Client.PullFile\<close> returns uid, gid, mode, the stream handle (\<open>None\<close> is nil) and
  the error.
\<close>

definition PullFile ::
  "env \<Rightarrow> Client \<Rightarrow> string \<Rightarrow> string \<Rightarrow> int \<times> int \<times> FileMode \<times> body option \<times> error option" where
  "PullFile E c container p =
     (let uri = url E c [APIVersion E, ''containers'', container, ''files''];
          query = [(''path'', [p])]
      in case http_Get E (uri @ ''?'' @ Values_Encode E query) of
           Inl err \<Rightarrow> (0, 0, 0, None, Some err)
         | Inr r \<Rightarrow>
             if StatusCode r \<noteq> 200
             then (case ParseResponse r of
                     Inl err \<Rightarrow> (0, 0, 0, None, Some err)
                   | Inr resp \<Rightarrow> (0, 0, 0, None, ParseError resp))
             else (case ParseLXDFileHeaders E (Header r) of
                     Inl err \<Rightarrow> (0, 0, 0, None, Some err)
                   | Inr (uid, gid, mode) \<Rightarrow> (uid, gid, mode, Some (Body r), None)))"

section \<open>Operations (the file declaring \<open>Operation\<close>)\<close>

type_synonym OperationStatus = string

definition Pending :: OperationStatus where "Pending = ''pending''"
definition Running :: OperationStatus where "Running = ''running''"
definition Done :: OperationStatus where "Done = ''done''"
definition Cancelling :: OperationStatus where "Cancelling = ''cancelling''"
definition Cancelled :: OperationStatus where "Cancelled = ''cancelled''"

definition StatusCodes :: "OperationStatus \<rightharpoonup> int" where
  "StatusCodes = map_of
     [(Pending, 0), (Running, 1), (Done, 2), (Cancelling, 3), (Cancelled, 4)]"

type_synonym Result = string

definition Success :: Result where "Success = ''success''"
definition Failure :: Result where "Failure = ''failure''"

definition ResultCodes :: "Result \<rightharpoonup> int" where
  "ResultCodes = map_of [(Failure, 0), (Success, 1)]"

text \<open>Indexing a Go map of ints at a missing key gives 0.\<close>

definition index_int :: "('k \<rightharpoonup> int) \<Rightarrow> 'k \<Rightarrow> int" where
  "index_int m k = (case m k of None \<Rightarrow> 0 | Some v \<Rightarrow> v)"

text \<open>
  The struct \<open>Operation\<close>. The hooks \<open>Run\<close> and \<open>Cancel\<close> (of type \<open>func() error\<close>)
  and the channel \<open>Chan\<close> are never called or used by the functions below, so their
  types are left as parameters.
\<close>

record ('f, 'c) Operation =
  CreatedAt :: Time
  UpdatedAt :: Time
  Status :: OperationStatus
  StatusCode :: int
  Result :: Result
  ResultCode :: int
  ResourceURL :: string
  Metadata :: RawMessage
  MayCancel :: bool
  Run :: 'f
  Cancel :: 'f
  Chan :: 'c

text \<open>
  \<open>SetStatus\<close>; the argument \<open>now\<close> is the value \<open>time.Now()\<close> returns at the call.
\<close>

definition SetStatus ::
  "Time \<Rightarrow> OperationStatus \<Rightarrow> ('f, 'c) Operation \<Rightarrow> ('f, 'c) Operation" where
  "SetStatus now status o1 =
     (let o2 = o1\<lparr>Status := status\<rparr>;
          o3 = o2\<lparr>StatusCode := index_int StatusCodes status\<rparr>;
          o4 = o3\<lparr>UpdatedAt := now\<rparr>
      in if status = Done \<or> status = Cancelling \<or> status = Cancelled
         then o4\<lparr>MayCancel := False\<rparr>
         else o4)"

text \<open>
  \<open>SetResult\<close>. \<open>Marshal\<close> is \<open>json.Marshal\<close> on a string: it returns the encoded
  bytes and an error. The error is only logged (\<open>Debugf\<close>), and \<open>md\<close> is stored
  whether or not there was one. The argument \<open>err\<close> carries the text of
  \<open>err.Error()\<close>.
\<close>

definition SetResult ::
  "(string \<Rightarrow> RawMessage \<times> error option) \<Rightarrow> Time \<Rightarrow> string option \<Rightarrow>
   ('f, 'c) Operation \<Rightarrow> ('f, 'c) Operation" where
  "SetResult Marshal now err o1 =
     (let o2 =
        (case err of
           None \<Rightarrow> o1\<lparr>Result := Success, ResultCode := index_int ResultCodes Success\<rparr>
         | Some text \<Rightarrow>
             (let o' = o1\<lparr>Result := Failure, ResultCode := index_int ResultCodes Failure\<rparr>;
                  (md, err') = Marshal text
              in o'\<lparr>Metadata := md\<rparr>))
      in o2\<lparr>UpdatedAt := now\<rparr>)"

section \<open>Concrete inputs\<close>

text \<open>
  The values at which the closed statements below are evaluated. \<open>env0\<close> answers
  every call without an error; its library functions are small stand-ins (the key
  derivation pads the password and the salt to the key length, the digest and the PEM
  encoder frame their input), enough to run the code on an input.
\<close>

definition certA :: Certificate where
  "certA = \<lparr>Raw = ''DER-A''\<rparr>"

definition certB :: Certificate where
  "certB = \<lparr>Raw = ''DER-B''\<rparr>"

definition env0 :: env where
  "env0 =
     \<lparr>APIVersion = ''1.0'',
      VarPath = (\<lambda>p. ''/var/lib/lxd/'' @ p),
      PW_SALT_BYTES = 4,
      PW_HASH_BYTES = 8,
      ReadToJson = (\<lambda>b. Inr \<lparr>trustPostBody.Type = ''client'', Certificate = '''', Password = ''wrong''\<rparr>),
      ParseLXDFileHeaders = (\<lambda>h. Inl (LibError ''missing headers'')),
      ReadStdin = Inr ''n'',
      Join = (\<lambda>elem. foldr (\<lambda>e acc. if acc = [] then e else e @ ''/'' @ acc) elem []),
      Encode = (\<lambda>args. if args = [] then Inr ''null'' else Inl (LibError ''unsupported value'')),
      Values_Encode = (\<lambda>vs. concat (map (\<lambda>(k, xs). k @ ''='' @ concat xs) vs)),
      NewRequest =
        (\<lambda>method uri buf. Inr \<lparr>Method = method, URL = uri, http_Request.Header = [],
                             http_Request.Body = buf, http_Request.TLS = None\<rparr>),
      Sum256 = (\<lambda>raw. ''sha256:'' @ raw),
      scrypt_Key =
        (\<lambda>password salt N r p keyLen.
           Inr (take keyLen (password @ salt @ replicate keyLen (CHR ''-'')))),
      DecodeString = (\<lambda>s. Inl (LibError ''illegal base64 data'')),
      ParseCertificate = (\<lambda>der. Inl (LibError ''malformed certificate'')),
      pem_Encode = (\<lambda>type bytes. ''-----BEGIN '' @ type @ ''-----'' @ bytes @ ''-----END '' @ type @ ''-----''),
      Do = (\<lambda>req. Inl (LibError ''connection refused'')),
      Getenv = (\<lambda>key. if key = ''HOME'' then ''/home/user'' else ''''),
      mkdir_fails = (\<lambda>path. None),
      open_fails = (\<lambda>path. None),
      write_fails = (\<lambda>path. None)\<rparr>"

text \<open>
  A daemon's file system whose password file holds the salt \<open>salt\<close> and the key that
  \<open>env0\<close> derives from the password \<open>secret\<close>.
\<close>

definition fs_pwd :: FS where
  "fs_pwd = \<lparr>files = [''/var/lib/lxd/adminpwd'' \<mapsto> ''saltsecretsa''], dirs = {}\<rparr>"

definition trust_request :: http_Request where
  "trust_request =
     \<lparr>Method = ''POST'', URL = ''/1.0/trust'', http_Request.Header = [],
      http_Request.Body = ''{\"type\": \"client\", \"password\": \"wrong\"}'',
      http_Request.TLS = Some \<lparr>PeerCertificates = [certB], ServerName = ''client1''\<rparr>\<rparr>"

text \<open>A client that has pinned \<open>certA\<close> for the remote \<open>r1\<close>.\<close>

definition client_pinned :: Client where
  "client_pinned =
     \<lparr>name = ''r1'', baseURL = ''https://10.0.0.1:8443'', scert = Some certA,
      scertWire = None, scertDigest = [], scertDigestSet = False\<rparr>"

text \<open>A response on a TLS session whose peer presented \<open>certB\<close>.\<close>

definition response_from_B :: http_Response where
  "response_from_B =
     \<lparr>http_Response.StatusCode = 200, Header = [],
      Body = Document (JObject [(''type'', JString ''sync''), (''result'', JString ''success'')]),
      TLS = Some \<lparr>PeerCertificates = [certB], ServerName = ''10.0.0.1''\<rparr>\<rparr>"

definition op_running :: "(unit, unit) Operation" where
  "op_running =
     \<lparr>CreatedAt = 1, UpdatedAt = 2, Status = Running, StatusCode = 1, Result = '''',
      ResultCode = 0, ResourceURL = ''/1.0/containers/web1'', Metadata = None,
      MayCancel = True, Run = (), Cancel = (), Chan = ()\<rparr>"

definition Marshal0 :: "string \<Rightarrow> RawMessage \<times> error option" where
  "Marshal0 text = (Some (JString text), None)"

text \<open>The network answers every request with \<open>response_from_B\<close>.\<close>

definition env_B :: env where
  "env_B = env0\<lparr>Do := (\<lambda>req. Inr response_from_B)\<rparr>"

text \<open>
  The network answers every request with status 404 and a body that decodes to a Sync
  envelope.
\<close>

definition response_404 :: http_Response where
  "response_404 =
     \<lparr>http_Response.StatusCode = 404, Header = [],
      Body = Document (JObject [(''type'', JString ''sync'')]),
      TLS = None\<rparr>"

definition env_404 :: env where
  "env_404 = env0\<lparr>Do := (\<lambda>req. Inr response_404)\<rparr>"

text \<open>
  A client on first contact with the remote \<open>r1\<close>: nothing is pinned, and the
  certificate of the session and its digest have been recorded.
\<close>

definition client_first :: Client where
  "client_first =
     \<lparr>name = ''r1'', baseURL = ''https://10.0.0.1:8443'', scert = None,
      scertWire = Some certB, scertDigest = ''sha256:DER-B'', scertDigestSet = True\<rparr>"

definition fs_empty :: FS where
  "fs_empty = \<lparr>files = Map.empty, dirs = {}\<rparr>"

text \<open>
  A body whose fields belong to three kinds at once: \<open>type\<close> is \<open>sync\<close>, and an
  operation reference, an error code and an error message are present.
\<close>

definition response_mixed :: http_Response where
  "response_mixed =
     \<lparr>http_Response.StatusCode = 200, Header = [],
      Body = Document (JObject [(''type'', JString ''sync''),
                                (''operation'', JString ''/1.0/operations/7''),
                                (''error_code'', JInt 500),
                                (''error'', JString ''boom'')]),
      TLS = None\<rparr>"

section \<open>Operations: status and result\<close>

text \<open>
  C6. For every Operation and every status \<open>s\<close> among Pending, Running, Done,
  Cancelling and Cancelled, \<open>SetStatus(s)\<close> sets the status to \<open>s\<close>, sets
  \<open>UpdatedAt\<close> to the time of the call, sets the status code to the wire encoding
  (Pending 0, Running 1, Done 2, Cancelling 3, Cancelled 4), and sets \<open>MayCancel\<close> to
  false exactly when \<open>s\<close> is Done, Cancelling or Cancelled: for Pending and Running
  the flag keeps its value.
\<close>

theorem SetStatus_sets_status_and_code:
  assumes "s \<in> {Pending, Running, Done, Cancelling, Cancelled}"
  shows "Status (SetStatus now s op) = s \<and>
         UpdatedAt (SetStatus now s op) = now \<and>
         StatusCode (SetStatus now s op) =
           (if s = Pending then 0 else if s = Running then 1 else if s = Done then 2
            else if s = Cancelling then 3 else 4) \<and>
         MayCancel (SetStatus now s op) =
           (if s = Done \<or> s = Cancelling \<or> s = Cancelled then False else MayCancel op)"
  using assms
  by (auto simp: SetStatus_def Let_def index_int_def StatusCodes_def Pending_def
      Running_def Done_def Cancelling_def Cancelled_def)

theorem SetStatus_sets_status_and_code_witness:
  "Cancelling \<in> {Pending, Running, Done, Cancelling, Cancelled} \<and>
   Status (SetStatus 5 Cancelling op_running) = Cancelling \<and>
   UpdatedAt (SetStatus 5 Cancelling op_running) = 5 \<and>
   StatusCode (SetStatus 5 Cancelling op_running) = 3 \<and>
   MayCancel (SetStatus 5 Cancelling op_running) = False"
proof -
  have h: "Cancelling \<in> {Pending, Running, Done, Cancelling, Cancelled}" by simp
  show ?thesis
    using h SetStatus_sets_status_and_code [OF h, of 5 op_running]
    by (simp add: Pending_def Running_def Done_def Cancelling_def Cancelled_def)
qed

text \<open>
  C10. For every Operation and every status \<open>s\<close> (any string, also none of the five),
  \<open>SetStatus(s)\<close> leaves \<open>Result\<close>, \<open>ResultCode\<close>, \<open>ResourceURL\<close>, \<open>Metadata\<close>,
  \<open>CreatedAt\<close>, the hooks \<open>Run\<close> and \<open>Cancel\<close> and the channel \<open>Chan\<close> as they
  were, and it never sets \<open>MayCancel\<close> to true: the flag is true after the call only
  if it was true before.
\<close>

theorem SetStatus_frame:
  "Result (SetStatus now s op) = Result op \<and>
   ResultCode (SetStatus now s op) = ResultCode op \<and>
   ResourceURL (SetStatus now s op) = ResourceURL op \<and>
   Metadata (SetStatus now s op) = Metadata op \<and>
   CreatedAt (SetStatus now s op) = CreatedAt op \<and>
   Run (SetStatus now s op) = Run op \<and>
   Cancel (SetStatus now s op) = Cancel op \<and>
   Chan (SetStatus now s op) = Chan op \<and>
   (MayCancel (SetStatus now s op) \<longrightarrow> MayCancel op)"
  by (simp add: SetStatus_def Let_def)

theorem SetStatus_frame_witness:
  "MayCancel (SetStatus 5 Pending op_running) \<and> MayCancel op_running \<and>
   Result (SetStatus 5 Pending op_running) = Result op_running \<and>
   Metadata (SetStatus 5 Pending op_running) = Metadata op_running"
proof -
  have "MayCancel (SetStatus 5 Pending op_running)"
    by (simp add: SetStatus_def Let_def op_running_def Pending_def Done_def
        Cancelling_def Cancelled_def)
  then show ?thesis
    using SetStatus_frame [of 5 Pending op_running] by simp
qed

text \<open>
  C5. For every error value, \<open>SetResult(err)\<close> sets \<open>Result\<close> to Success with code 1
  when \<open>err\<close> is nil; otherwise it sets \<open>Result\<close> to Failure with code 0 and
  overwrites \<open>Metadata\<close> with what \<open>json.Marshal\<close> returns for the error text. The
  function returns nothing but the Operation, so whatever error \<open>json.Marshal\<close>
  reports (the second component of \<open>Marshal text\<close>) the Operation reports Failure. In
  both cases \<open>UpdatedAt\<close> is the time of the call.
\<close>

theorem SetResult_sets_result:
  "Result (SetResult Marshal now None op) = Success \<and>
   ResultCode (SetResult Marshal now None op) = 1 \<and>
   UpdatedAt (SetResult Marshal now None op) = now \<and>
   Result (SetResult Marshal now (Some text) op) = Failure \<and>
   ResultCode (SetResult Marshal now (Some text) op) = 0 \<and>
   Metadata (SetResult Marshal now (Some text) op) = fst (Marshal text) \<and>
   UpdatedAt (SetResult Marshal now (Some text) op) = now"
  by (simp add: SetResult_def Let_def index_int_def ResultCodes_def Success_def
      Failure_def split: prod.splits)

text \<open>
  C3, as the specification states it: after \<open>SetResult(err)\<close> the status is Done and
  \<open>MayCancel\<close> is false. It fails on a Running operation that may be cancelled:
  \<open>SetResult\<close> writes neither field.
\<close>

theorem SetResult_status_counterexample:
  "\<not> (Status (SetResult Marshal0 9 None op_running) = Done \<and>
      MayCancel (SetResult Marshal0 9 None op_running) = False)"
  by (simp add: SetResult_def Let_def op_running_def Running_def Done_def)

text \<open>
  C3, amended. For every Operation and every error value, \<open>SetResult(err)\<close> leaves the
  status, the status code and \<open>MayCancel\<close> as they were; the status is Done and
  \<open>MayCancel\<close> is false after \<open>SetResult(err)\<close> when \<open>SetStatus(Done)\<close> was called
  on the Operation before it.
\<close>

theorem SetResult_keeps_status:
  "Status (SetResult Marshal now err op) = Status op \<and>
   StatusCode (SetResult Marshal now err op) = StatusCode op \<and>
   MayCancel (SetResult Marshal now err op) = MayCancel op \<and>
   Status (SetResult Marshal now err (SetStatus now0 Done op)) = Done \<and>
   MayCancel (SetResult Marshal now err (SetStatus now0 Done op)) = False"
  by (simp add: SetResult_def SetStatus_def Let_def split: prod.splits option.splits)

section \<open>Envelopes: decoding and the error of an envelope\<close>

lemma set_field_accepted:
  "(\<exists>r'. set_field key v r = Inr r') = member_accepted key v"
  by (cases v)
     (auto simp: set_field_def member_accepted_def Let_def string_value_def int_value_def)

lemma unmarshal_members_saved:
  "snd (unmarshal_members ms r (Some e)) \<noteq> None"
  by (induction ms arbitrary: r e) (auto split: sum.splits)

lemma unmarshal_members_accepted:
  "(snd (unmarshal_members ms r None) = None) =
   list_all (\<lambda>(key, v). member_accepted key v) ms"
proof (induction ms arbitrary: r)
  case Nil
  show ?case by simp
next
  case (Cons m ms)
  obtain key v where m: "m = (key, v)" by (cases m)
  show ?case
  proof (cases "set_field key v r")
    case (Inl e)
    then have "\<not> member_accepted key v"
      using set_field_accepted [of key v r] by auto
    then show ?thesis
      using Inl m unmarshal_members_saved [of ms r e] by simp
  next
    case (Inr r')
    then have "member_accepted key v"
      using set_field_accepted [of key v r] by auto
    then show ?thesis
      using Inr m Cons.IH [of r'] by simp
  qed
qed

lemma Unmarshal_accepted:
  "(snd (Unmarshal doc r) = None) = accepted_document doc"
  by (cases doc) (simp_all add: Unmarshal_def accepted_document_def unmarshal_members_accepted)

lemma fold_key_long_s:
  "fold_key (''re'' @ [CHR 0xC5, CHR 0xBF] @ ''ult'') = ''result'' \<and>
   fold_key ''Error_Code'' = ''error_code''"
  by code_simp

lemma ParseResponse_long_s_key:
  "ParseResponse
     \<lparr>http_Response.StatusCode = 200, Header = [],
      Body = Document (JObject [(''re'' @ [CHR 0xC5, CHR 0xBF] @ ''ult'', JInt 5)]),
      TLS = None\<rparr>
   = Inl (UnmarshalTypeError ''Response.result'')"
  by (simp add: ParseResponse_def Unmarshal_def Response_zero_def set_field_def Let_def
      to_lower_def string_value_def)

text \<open>
  C4, as the specification states it: a body whose fields are not exactly those its
  kind permits yields a decoding failure. It fails on \<open>response_mixed\<close>, a Sync
  envelope that also carries an operation reference, an error code and an error
  message: the decoder returns it, with all four fields stored.
\<close>

theorem ParseResponse_mixed_counterexample:
  "ParseResponse response_mixed =
     Inr \<lparr>Response.Type = ''sync'', Response.Result = '''',
          Response.Operation = ''/1.0/operations/7'', Response.Code = 500,
          Response.Error = ''boom'', Response.Metadata = None\<rparr>"
  by (simp add: ParseResponse_def response_mixed_def Unmarshal_def Response_zero_def
      set_field_def Let_def to_lower_def string_value_def int_value_def)

text \<open>
  C4, amended. For every response body, decoding it into an Envelope succeeds exactly
  when the body can be read, is well-formed JSON, and is \<open>null\<close> or an object in which
  every member named \<open>type\<close>, \<open>result\<close>, \<open>operation\<close> or \<open>error\<close> is a string or
  \<open>null\<close> and every member named \<open>error_code\<close> is an integer literal in the range of
  \<open>int\<close> or \<open>null\<close>. A key names a field as the decoder reads names: in any case of
  letters, and with the long s, U+017F, for the \<open>s\<close> of \<open>result\<close>. Which fields are
  present is not compared with the kind. Every other body yields a decoding failure.
\<close>

theorem ParseResponse_succeeds_iff:
  "(\<exists>ret. ParseResponse r = Inr ret) =
   (\<exists>doc. Body r = Document doc \<and> accepted_document doc)"
proof (cases "Body r")
  case (Unreadable e)
  then show ?thesis by (simp add: ParseResponse_def)
next
  case (Malformed e)
  then show ?thesis by (simp add: ParseResponse_def)
next
  case (Document doc)
  obtain ret saved where u: "Unmarshal doc Response_zero = (ret, saved)"
    by (cases "Unmarshal doc Response_zero")
  then have "(saved = None) = accepted_document doc"
    using Unmarshal_accepted [of doc Response_zero] by simp
  then show ?thesis
    using Document u by (cases saved) (simp_all add: ParseResponse_def)
qed

lemma doPrintf_plain: "CHR ''%'' \<notin> set s \<Longrightarrow> doPrintf s = s"
  by (induction s) auto

lemma doPrintf_trailing_dot: "doPrintf ''100%.'' = ''100%!.(MISSING)''"
  by (simp add: verb_def argNumber_def parsenum_def is_flag_def is_digit_def
      DecodeRune_def rune_size_def)

lemma doPrintf_two_byte_verb:
  "doPrintf (''%'' @ [CHR 0xC3, CHR 0xA9] @ ''t'') =
     ''%!'' @ [CHR 0xC3, CHR 0xA9] @ ''(MISSING)t''"
  by (simp add: verb_def argNumber_def parsenum_def is_flag_def is_digit_def
      DecodeRune_def rune_size_def is_cont_def)

lemma doPrintf_ill_formed_verb:
  "doPrintf (''%'' @ [CHR 0xC3] @ ''t'') =
     ''%!'' @ [CHR 0xEF, CHR 0xBF, CHR 0xBD] @ ''(MISSING)t''"
  by (simp add: verb_def argNumber_def parsenum_def is_flag_def is_digit_def
      DecodeRune_def rune_size_def is_cont_def)

lemma ParseError_nil: "(ParseError r = None) = (Type r \<noteq> Error)"
  by (simp add: ParseError_def)

lemma ParseError_plain_message:
  "Type r = Error \<Longrightarrow> CHR ''%'' \<notin> set (Response.Error r) \<Longrightarrow>
   ParseError r = Some (ErrorString (Response.Error r))"
  by (simp add: ParseError_def Errorf_def doPrintf_plain)

text \<open>
  C7. \<open>ParseError\<close> returns nil exactly for the envelopes whose kind is not Error
  (\<open>ParseError_nil\<close>), and for an Error envelope whose message has no \<open>%\<close> the failure
  carries the message (\<open>ParseError_plain_message\<close>). But the message is handed to
  \<open>fmt.Errorf\<close> as its format: for the Error envelope with the message \<open>hi%d\<close> the
  failure does not carry the message, it carries \<open>hi%!d(MISSING)\<close>.
\<close>

theorem ParseError_message_as_format:
  "ParseError \<lparr>Response.Type = Error, Response.Result = '''',
               Response.Operation = '''', Response.Code = 0,
               Response.Error = ''hi%d'', Response.Metadata = None\<rparr>
   = Some (ErrorString ''hi%!d(MISSING)'')"
  by (simp add: ParseError_def Errorf_def verb_def argNumber_def parsenum_def
      is_flag_def is_digit_def DecodeRune_def rune_size_def)

section \<open>The client: pinned certificates, first contact and file transfer\<close>

lemma Errorf_changed:
  "Errorf ''Server certificate has changed'' = ErrorString ''Server certificate has changed''"
  by (simp add: Errorf_def)

lemma get_rejects_changed_certificate:
  assumes "http_Get E (url E c [APIVersion E, base]) = Inr resp"
    and "scert c = Some pinned"
    and "TLS resp = Some tls"
    and "PeerCertificates tls = peer # others"
    and "Raw peer \<noteq> Raw pinned"
  shows "get E c base = (c, Inl (ErrorString ''Server certificate has changed''))"
  using assms by (simp add: get_def Let_def Errorf_changed)

lemma put_decodes_whatever_the_peer:
  assumes "Encode E args = Inr buf"
    and "NewRequest E ''PUT'' (url E c [APIVersion E, base]) buf = Inr req"
    and "Do E (Header_Set req ''Content-Type'' ''application/json'') = Inr resp"
  shows "put E c base args = ParseResponse resp"
  using assms by (simp add: put_def Let_def)

text \<open>
  C2. The client \<open>client_pinned\<close> has pinned \<open>certA\<close>; the session presents \<open>certB\<close>,
  whose bytes differ. \<open>get\<close> fails with the server-certificate-changed error, as the
  claim says. \<open>put\<close>, \<open>post\<close> and \<open>delete_\<close> do not look at the session: each decodes
  the body and returns the envelope.
\<close>

theorem put_post_delete_skip_pinned_check:
  "scert client_pinned = Some certA \<and>
   TLS response_from_B = Some \<lparr>PeerCertificates = [certB], ServerName = ''10.0.0.1''\<rparr> \<and>
   Raw certB \<noteq> Raw certA \<and>
   get env_B client_pinned ''finger'' =
     (client_pinned, Inl (ErrorString ''Server certificate has changed'')) \<and>
   put env_B client_pinned ''containers/web1/state'' [] =
     Inr \<lparr>Response.Type = ''sync'', Response.Result = ''success'',
          Response.Operation = '''', Response.Code = 0,
          Response.Error = '''', Response.Metadata = None\<rparr> \<and>
   post env_B client_pinned ''containers'' [] =
     Inr \<lparr>Response.Type = ''sync'', Response.Result = ''success'',
          Response.Operation = '''', Response.Code = 0,
          Response.Error = '''', Response.Metadata = None\<rparr> \<and>
   delete' env_B client_pinned ''containers/web1'' [] =
     Inr \<lparr>Response.Type = ''sync'', Response.Result = ''success'',
          Response.Operation = '''', Response.Code = 0,
          Response.Error = '''', Response.Metadata = None\<rparr>"
  by (simp add: client_pinned_def response_from_B_def certA_def certB_def env_B_def
      env0_def get_def put_def post_def delete'_def http_Get_def http_Post_def
      Header_Set_def url_def Let_def Errorf_changed ParseResponse_def Unmarshal_def
      Response_zero_def set_field_def to_lower_def string_value_def)

lemma UserAuthServerCert_first_byte:
  "(scertDigestSet c \<and> ReadStdin E = Inr (ch # rest) \<and> ch \<noteq> CHR ''y'' \<and> ch \<noteq> CHR ''Y''
      \<longrightarrow> UserAuthServerCert E c fs =
            (fs, Some (ErrorString ''Server certificate NACKed by user''))) \<and>
   ((case ReadStdin E of
       Inr (ch # rest) \<Rightarrow> ch \<noteq> CHR ''y'' \<and> ch \<noteq> CHR ''Y''
     | _ \<Rightarrow> True)
      \<longrightarrow> fst (UserAuthServerCert E c fs) = fs)"
  by (auto simp: UserAuthServerCert_def Errorf_def split: sum.splits list.splits)

lemma UserAuthServerCert_answer_n:
  "UserAuthServerCert env0 client_first fs_empty =
     (fs_empty, Some (ErrorString ''Server certificate NACKed by user''))"
  by (simp add: UserAuthServerCert_def env0_def client_first_def Errorf_def)

text \<open>
  C8. On first contact a certificate has been recorded on the connection, and the
  operator answers the question with an empty line, which is no affirmative
  confirmation. The claim says that the call fails with the trust-rejection error and
  that nothing is written. Nothing is written; but \<open>UserAuthServerCert\<close> reads the
  first byte of the answer without looking at its length, and the call ends in the
  panic of an index out of range, not in the error \<open>Server certificate NACKed by
  user\<close>. For an answer that has a first byte other than \<open>y\<close> and \<open>Y\<close> the claim
  holds (\<open>UserAuthServerCert_first_byte\<close>), and no answer that is not affirmative
  changes the file system.
\<close>

theorem UserAuthServerCert_empty_answer_panics:
  "scertDigestSet client_first \<and>
   scert client_first = None \<and>
   UserAuthServerCert (env0\<lparr>ReadStdin := Inr []\<rparr>) client_first fs_empty =
     (fs_empty, Some (Panic ''index out of range''))"
  by (simp add: UserAuthServerCert_def env0_def client_first_def)

lemma UserAuthServerCert_accepted:
  "(case UserAuthServerCert (env0\<lparr>ReadStdin := Inr ''yes''\<rparr>) client_first fs_empty of
      (fs, err) \<Rightarrow>
        err = None \<and>
        files fs ''/home/user/.config/lxc/servercerts/r1.crt'' =
          Some ''-----BEGIN CERTIFICATE-----DER-B-----END CERTIFICATE-----'')"
  by (simp add: UserAuthServerCert_def env0_def client_first_def fs_empty_def certB_def
      MkdirAll_def Create_def pem_Encode_to_def Let_def)

text \<open>
  C9. When the request is answered with a status other than 200 and the body decodes
  to an envelope whose kind is not Error, \<open>PullFile\<close> returns uid 0, gid 0, mode 0, a
  nil stream handle and a nil error.
\<close>

theorem PullFile_non_200_without_error:
  assumes "http_Get E (url E c [APIVersion E, ''containers'', container, ''files'']
                        @ ''?'' @ Values_Encode E [(''path'', [p])]) = Inr r"
    and "http_Response.StatusCode r \<noteq> 200"
    and "ParseResponse r = Inr resp"
    and "Type resp \<noteq> Error"
  shows "PullFile E c container p = (0, 0, 0, None, None)"
  using assms by (simp add: PullFile_def Let_def ParseError_def)

theorem PullFile_non_200_without_error_witness:
  "http_Get env_404 (url env_404 client_pinned [APIVersion env_404, ''containers'', ''web1'', ''files'']
                      @ ''?'' @ Values_Encode env_404 [(''path'', [''/etc/hosts''])])
     = Inr response_404 \<and>
   http_Response.StatusCode response_404 \<noteq> 200 \<and>
   ParseResponse response_404 =
     Inr \<lparr>Response.Type = ''sync'', Response.Result = '''', Response.Operation = '''',
          Response.Code = 0, Response.Error = '''', Response.Metadata = None\<rparr> \<and>
   PullFile env_404 client_pinned ''web1'' ''/etc/hosts'' = (0, 0, 0, None, None)"
proof -
  have g: "http_Get env_404 (url env_404 client_pinned [APIVersion env_404, ''containers'', ''web1'', ''files'']
                      @ ''?'' @ Values_Encode env_404 [(''path'', [''/etc/hosts''])])
     = Inr response_404"
    by (simp add: http_Get_def env_404_def env0_def)
  have s: "http_Response.StatusCode response_404 \<noteq> 200"
    by (simp add: response_404_def)
  have d: "ParseResponse response_404 =
     Inr \<lparr>Response.Type = ''sync'', Response.Result = '''', Response.Operation = '''',
          Response.Code = 0, Response.Error = '''', Response.Metadata = None\<rparr>"
    by (simp add: ParseResponse_def response_404_def Unmarshal_def Response_zero_def
        set_field_def to_lower_def string_value_def Let_def)
  have k: "Type \<lparr>Response.Type = ''sync'', Response.Result = '''', Response.Operation = '''',
          Response.Code = 0, Response.Error = '''', Response.Metadata = None\<rparr> \<noteq> Error"
    by (simp add: Error_def)
  show ?thesis
    using g s d PullFile_non_200_without_error [OF g s d k] by simp
qed

section \<open>The daemon: trust requests\<close>

lemma os_calls_ReadToJson:
  "MkdirAll (E\<lparr>ReadToJson := f\<rparr>) = MkdirAll E"
  "Create (E\<lparr>ReadToJson := f\<rparr>) = Create E"
  "pem_Encode_to (E\<lparr>ReadToJson := f\<rparr>) = pem_Encode_to E"
  by (simp_all add: MkdirAll_def Create_def pem_Encode_to_def fun_eq_iff split: option.split)

lemma saveCert_ReadToJson:
  "saveCert (E\<lparr>ReadToJson := f\<rparr>) = saveCert E"
  by (simp add: saveCert_def os_calls_ReadToJson fun_eq_iff Let_def split: sum.split)

lemma trustPost_store_ReadToJson:
  "trustPost_store (E\<lparr>ReadToJson := f\<rparr>) = trustPost_store E"
  by (simp add: trustPost_store_def saveCert_ReadToJson fun_eq_iff split: option.split)

lemma trustPost_never_reads_password:
  "trustPost (E\<lparr>ReadToJson :=
                  (\<lambda>b. case ReadToJson E b of
                          Inl e \<Rightarrow> Inl e
                        | Inr req \<Rightarrow> Inr (req\<lparr>Password := password\<rparr>))\<rparr>) d fs r
   = trustPost E d fs r"
  by (cases "ReadToJson E (http_Request.Body r)")
     (simp_all add: trustPost_def trustPost_store_ReadToJson split: sum.split option.split)

text \<open>
  C1. The daemon has a stored admin password: \<open>fs_pwd\<close> holds the salt and the key
  derived from \<open>secret\<close>. The request submits the password \<open>wrong\<close>, which does not
  verify, over a session whose peer presents \<open>certB\<close>. \<open>trustPost\<close> never calls
  \<open>verifyAdminPwd\<close>: the request succeeds, the certificate is written to the
  certificate directory and added to the map of client certificates.
\<close>

theorem trustPost_accepts_wrong_password:
  "hasPwd env0 fs_pwd \<and>
   verifyAdminPwd env0 fs_pwd ''secret'' \<and>
   \<not> verifyAdminPwd env0 fs_pwd ''wrong'' \<and>
   map_sum id Password (ReadToJson env0 (http_Request.Body trust_request)) = Inr ''wrong'' \<and>
   (case trustPost env0 \<lparr>clientCerts = Map.empty\<rparr> fs_pwd trust_request of
      (d, fs, resp) \<Rightarrow>
        resp = Inr EmptySyncResponse \<and>
        clientCerts d ''client1'' = Some certB \<and>
        files fs ''/var/lib/lxd/clientcerts/client1.crt'' =
          Some ''-----BEGIN CERTIFICATE-----DER-B-----END CERTIFICATE-----'')"
  by (simp add: hasPwd_def verifyAdminPwd_def Read_buff_def Open_def env0_def fs_pwd_def
      trust_request_def trustPost_def trustPost_store_def saveCert_def MkdirAll_def
      Create_def pem_Encode_to_def certB_def Let_def)

end
